theory Spec2Isabelle
  imports Complex_Main "HOL-Library.Sublist"
begin

section \<open>Errors raised by the program\<close>

text \<open>
  Every exception the Python code can raise on the paths modelled here is a value.
  \<open>NotFinite\<close> stands for a division by zero: after substitution sympy holds
  \<open>zoo\<close> or \<open>nan\<close>, and the conversion to a float either raises or yields a
  non-finite entry. \<open>TypeError\<close> is the failed conversion of an expression that still
  has a free symbol (or is complex) to a float.
\<close>

datatype error =
    IndexError
  | KeyError string
  | AttributeError string
  | ValueError
  | ShapeError
  | NotImplementedError
  | TypeError
  | NotFinite

definition bindE :: "error + 'a \<Rightarrow> ('a \<Rightarrow> error + 'b) \<Rightarrow> error + 'b" where
  "bindE r k = (case r of Inl e \<Rightarrow> Inl e | Inr v \<Rightarrow> k v)"

section \<open>Symbolic expressions of the algebra engine\<close>

text \<open>
  The expressions the program builds with sympy: numbers, named symbols, sums, products,
  integer powers (\<open>q2**2\<close>, \<open>u0**2.\<close>, and \<open>1./m\<close> as the power \<open>-1\<close>) and the
  square root. Numbers are real numbers: the rounding of floats is not modelled.
\<close>

datatype expr =
    Const real
  | Sym string
  | Add expr expr
  | Mul expr expr
  | Pow expr int
  | Sqrt expr

text \<open>
  The operators of Python on expressions. As sympy does when it builds a sum, a product
  or a power, numbers are combined at once, a zero summand is dropped and a zero factor
  makes the product zero.
\<close>

definition add :: "expr \<Rightarrow> expr \<Rightarrow> expr" where
  "add a b =
     (case (a, b) of
        (Const x, Const y) \<Rightarrow> Const (x + y)
      | _ \<Rightarrow> if a = Const 0 then b else if b = Const 0 then a else Add a b)"

definition mul :: "expr \<Rightarrow> expr \<Rightarrow> expr" where
  "mul a b =
     (case (a, b) of
        (Const x, Const y) \<Rightarrow> Const (x * y)
      | _ \<Rightarrow> if a = Const 0 \<or> b = Const 0 then Const 0 else Mul a b)"

definition pow :: "expr \<Rightarrow> int \<Rightarrow> expr" where
  "pow a k =
     (case a of
        Const x \<Rightarrow> if x = 0 \<and> k < 0 then Pow a k else Const (x powi k)
      | _ \<Rightarrow> Pow a k)"

definition neg :: "expr \<Rightarrow> expr" where
  "neg a = mul (Const (- 1)) a"

definition sub :: "expr \<Rightarrow> expr \<Rightarrow> expr" where
  "sub a b = add a (neg b)"

definition divide_e :: "expr \<Rightarrow> expr \<Rightarrow> expr" where
  "divide_e a b = mul a (pow b (- 1))"

text \<open>The value of an expression under a valuation of all symbols, as a real number.\<close>

fun evalT :: "(string \<Rightarrow> real) \<Rightarrow> expr \<Rightarrow> real" where
  "evalT env (Const c) = c"
| "evalT env (Sym n) = env n"
| "evalT env (Add a b) = evalT env a + evalT env b"
| "evalT env (Mul a b) = evalT env a * evalT env b"
| "evalT env (Pow a k) = evalT env a powi k"
| "evalT env (Sqrt a) = sqrt (evalT env a)"

section \<open>Matrices\<close>

text \<open>
  A matrix has a shape and an entry at every index pair of its shape; \<open>M[n,m]\<close> of the
  source is \<open>entry M n m\<close>.
\<close>

record 'a matrix =
  nrows :: nat
  ncols :: nat
  entry :: "nat \<Rightarrow> nat \<Rightarrow> 'a"

definition zeros :: "nat \<Rightarrow> nat \<Rightarrow> expr matrix" where
  "zeros r c = \<lparr>nrows = r, ncols = c, entry = (\<lambda>i j. Const 0)\<rparr>"

definition set_at :: "'a matrix \<Rightarrow> nat \<Rightarrow> nat \<Rightarrow> 'a \<Rightarrow> 'a matrix" where
  "set_at M i j v = M\<lparr>entry := (\<lambda>a b. if a = i \<and> b = j then v else entry M a b)\<rparr>"

section \<open>Kinematics: \<open>Dynamics.Om\<close> and \<open>Dynamics.cIB\<close>\<close>

text \<open>
  Both functions unpack their argument (\<open>w0, w1, w2 = w\<close>), which raises a
  \<open>ValueError\<close> unless it has exactly that many components, and fill a zero matrix
  entry by entry. Only the symbolic branch (\<open>numpy=False\<close>) is called by the program.
\<close>

fun Om :: "expr list \<Rightarrow> error + expr matrix" where
  "Om [w0, w1, w2] = Inr (
     let Omega = zeros 4 4;
         Omega = set_at Omega 0 0 (Const 0);
         Omega = set_at Omega 0 1 (neg w0);
         Omega = set_at Omega 0 2 (neg w1);
         Omega = set_at Omega 0 3 (neg w2);
         Omega = set_at Omega 1 0 w0;
         Omega = set_at Omega 1 1 (Const 0);
         Omega = set_at Omega 1 2 w2;
         Omega = set_at Omega 1 3 (neg w1);
         Omega = set_at Omega 2 0 w1;
         Omega = set_at Omega 2 1 (neg w2);
         Omega = set_at Omega 2 2 (Const 0);
         Omega = set_at Omega 2 3 w0;
         Omega = set_at Omega 3 0 w2;
         Omega = set_at Omega 3 1 w1;
         Omega = set_at Omega 3 2 (neg w0);
         Omega = set_at Omega 3 3 (Const 0)
     in Omega)"
| "Om _ = Inl ValueError"

fun cIB :: "expr list \<Rightarrow> error + expr matrix" where
  "cIB [q0, q1, q2, q3] = Inr (
     let cIB_m = zeros 3 3;
         cIB_m = set_at cIB_m 0 0 (sub (Const 1) (mul (Const 2) (add (pow q2 2) (pow q3 2))));
         cIB_m = set_at cIB_m 0 1 (mul (Const 2) (add (mul q1 q2) (mul q0 q3)));
         cIB_m = set_at cIB_m 0 2 (mul (Const 2) (sub (mul q1 q3) (mul q0 q2)));
         cIB_m = set_at cIB_m 1 0 (mul (Const 2) (sub (mul q1 q2) (mul q0 q3)));
         cIB_m = set_at cIB_m 1 1 (sub (Const 1) (mul (Const 2) (add (pow q1 2) (pow q3 2))));
         cIB_m = set_at cIB_m 1 2 (mul (Const 2) (add (mul q2 q3) (mul q0 q1)));
         cIB_m = set_at cIB_m 2 0 (mul (Const 2) (add (mul q1 q3) (mul q0 q2)));
         cIB_m = set_at cIB_m 2 1 (mul (Const 2) (sub (mul q2 q3) (mul q0 q1)));
         cIB_m = set_at cIB_m 2 2 (sub (Const 1) (mul (Const 2) (add (pow q1 2) (pow q2 2))))
     in cIB_m)"
| "cIB _ = Inl ValueError"

text \<open>The product of a matrix with its transpose, entry by entry, over the reals.\<close>

definition times_transpose :: "real matrix \<Rightarrow> nat \<Rightarrow> nat \<Rightarrow> real" where
  "times_transpose R i j = (\<Sum>k<ncols R. entry R i k * entry R j k)"

definition eval_matrix :: "(string \<Rightarrow> real) \<Rightarrow> expr matrix \<Rightarrow> real matrix" where
  "eval_matrix env M =
     \<lparr>nrows = nrows M, ncols = ncols M, entry = (\<lambda>i j. evalT env (entry M i j))\<rparr>"

section \<open>Text: \<open>str\<close> of an integer and \<open>str.replace\<close>\<close>

definition tab :: string where
  "tab = ''    ''"

definition nl :: string where
  "nl = [CHR 0x0A]"

definition digit_char :: "nat \<Rightarrow> char" where
  "digit_char d = ''0123456789'' ! d"

fun str_nat :: "nat \<Rightarrow> string" where
  "str_nat n = (if n < 10 then [digit_char n] else str_nat (n div 10) @ [digit_char (n mod 10)])"

declare str_nat.simps [simp del]

text \<open>
  Python's \<open>s.replace(old, new)\<close>: the occurrences of \<open>old\<close> are found from the left
  and do not overlap; the scan goes on after each replaced occurrence. For an empty
  \<open>old\<close> Python puts \<open>new\<close> before every character and at the end.
\<close>

function replace_scan :: "string \<Rightarrow> string \<Rightarrow> string \<Rightarrow> string" where
  "replace_scan old new [] = []"
| "replace_scan old new (c # cs) =
     (if old \<noteq> [] \<and> prefix old (c # cs)
      then new @ replace_scan old new (drop (length old) (c # cs))
      else c # replace_scan old new cs)"
  by pat_completeness auto
termination
  by (relation "measure (\<lambda>(old, new, s). length s)") (auto simp: neq_Nil_conv)

definition py_replace :: "string \<Rightarrow> string \<Rightarrow> string \<Rightarrow> string" where
  "py_replace s old new =
     (if old = [] then new @ concat (map (\<lambda>c. c # new) s) else replace_scan old new s)"

section \<open>Code generation: \<open>Dynamics.generate_functions\<close>\<close>

text \<open>
  The generator writes a sequence of strings to the file; the file is their
  concatenation. The printer \<open>str\<close> of the algebra engine is a parameter.
\<close>

definition J_name :: "nat \<Rightarrow> nat \<Rightarrow> string" where
  "J_name i j = ''J'' @ str_nat i @ str_nat j"

definition J_index :: "nat \<Rightarrow> nat \<Rightarrow> string" where
  "J_index i j = ''J['' @ str_nat i @ '','' @ str_nat j @ '']''"

definition rewrite_J :: "string \<Rightarrow> string" where
  "rewrite_J genline =
     foldl (\<lambda>g i. foldl (\<lambda>g j. py_replace g (J_name i j) (J_index i j)) g [0..<3])
       genline [0..<3]"

definition genline :: "string \<Rightarrow> nat \<Rightarrow> nat \<Rightarrow> string \<Rightarrow> string" where
  "genline name n m val =
     rewrite_J (tab @ name @ ''m'' @
       (if name \<noteq> ''f'' then ''['' @ str_nat n @ '', '' @ str_nat m @ '']='' @ val
        else ''['' @ str_nat n @ '']='' @ val))"

definition assignment_writes :: "('e \<Rightarrow> string) \<Rightarrow> string \<Rightarrow> 'e matrix \<Rightarrow> string list" where
  "assignment_writes str name M =
     concat (map (\<lambda>n. concat (map (\<lambda>m.
         let val = str (entry M n m)
         in if val \<noteq> ''0'' then [tab @ genline name n m val @ nl] else [])
       [0..<ncols M])) [0..<nrows M])"

definition variables_unpacking :: "string list" where
  "variables_unpacking =
     [''m, r0, r1, r2, v0, v1, v2, q0, q1, q2, q3, w0, w1, w2 = x'',
      ''u0, u1, u2 = u'']"

definition constants_unpacking :: "string list" where
  "constants_unpacking =
     [''J = self.J'',
      ''alpha = self.alpha'',
      ''gx, gy, gz = self.g_I'',
      ''rTB0, rTB1, rTB2 = self.rTB'']"

definition str_shape :: "'e matrix \<Rightarrow> string" where
  "str_shape M = ''('' @ str_nat (nrows M) @ '', '' @ str_nat (ncols M) @ '')''"

definition zeros_writes :: "string \<Rightarrow> 'e matrix \<Rightarrow> string list" where
  "zeros_writes name M =
     (if name \<noteq> ''f''
      then [tab @ name @ ''m'', '' = np.zeros('' @ str_shape M @ '')'' @ nl]
      else [tab @ name @ ''m'', '' = np.zeros(('' @ str_nat (nrows M) @ '',))'' @ nl])"

definition function_writes :: "('e \<Rightarrow> string) \<Rightarrow> string \<Rightarrow> 'e matrix \<Rightarrow> string list" where
  "function_writes str name M =
     (if name \<noteq> ''f''
      then [nl, tab, ''def '' @ name @ ''(self, x, u, s):'' @ nl]
      else [nl, tab, ''def '' @ name @ ''(self, x, u):'' @ nl])
     @ map (\<lambda>v. tab @ tab @ v @ nl) variables_unpacking
     @ [nl]
     @ map (\<lambda>c. tab @ tab @ c @ nl) constants_unpacking
     @ [nl @ tab]
     @ zeros_writes name M
     @ assignment_writes str name M
     @ [tab @ tab @ ''return '' @ name @ ''m'' @ nl]"

definition set_parameters_string :: string where
  "set_parameters_string =
     tab @ ''def set_parameters(self, parms):'' @ nl @ tab @ tab
     @ ''for name, val in parms.items():'' @ nl @ tab @ tab @ tab
     @ ''setattr(self, name, val)''"

definition header_writes :: "string list" where
  "header_writes =
     [replicate 3 (CHR 0x22) @ '' This was generated by dynamics_generation.py ''
        @ replicate 3 (CHR 0x22) @ nl @ nl,
      ''from numpy import sqrt'' @ nl,
      ''import numpy as np'' @ nl @ nl,
      ''class Dynamics:'' @ nl @ nl,
      set_parameters_string @ nl]"

text \<open>
  \<open>functions\<close> is the dictionary \<open>{'A': self.A, 'B': self.B, 'f': self.f}\<close>; its
  items are visited in insertion order (Python 3.7 and later).
\<close>

definition write_functions :: "('e \<Rightarrow> string) \<Rightarrow> (string \<times> 'e matrix) list \<Rightarrow> string" where
  "write_functions str functions =
     concat (header_writes @ concat (map (\<lambda>(name, M). function_writes str name M) functions))"

text \<open>
  A text seen as a sequence of pieces: plain text free of the letter \<open>J\<close>, inertia
  names \<open>Jij\<close>, and indexed accesses \<open>J[i,j]\<close>. Every symbol and function
  name of the program other than \<open>J00\<close>, \<open>J11\<close>, \<open>J22\<close> is free of \<open>J\<close>
  (\<open>m\<close>, \<open>r0..r2\<close>, \<open>v0..v2\<close>, \<open>q0..q3\<close>, \<open>w0..w2\<close>, \<open>u0..u2\<close>,
  \<open>s\<close>, \<open>alpha\<close>, \<open>rTB0..rTB2\<close>, \<open>gx\<close>, \<open>gy\<close>, \<open>gz\<close>, \<open>sqrt\<close>), so
  every printed entry of \<open>f\<close>, \<open>A\<close>, \<open>B\<close> is such a sequence.
\<close>

datatype piece = Txt string | JName nat nat | JIdx nat nat

fun render :: "piece \<Rightarrow> string" where
  "render (Txt s) = s"
| "render (JName i j) = J_name i j"
| "render (JIdx i j) = J_index i j"

fun index_J :: "piece \<Rightarrow> piece" where
  "index_J (JName i j) = JIdx i j"
| "index_J p = p"

fun wf_piece :: "piece \<Rightarrow> bool" where
  "wf_piece (Txt s) = (CHR ''J'' \<notin> set s)"
| "wf_piece (JName i j) = (i < 3 \<and> j < 3)"
| "wf_piece (JIdx i j) = (i < 3 \<and> j < 3)"

definition pass :: "nat \<Rightarrow> nat \<Rightarrow> piece \<Rightarrow> piece" where
  "pass i j p = (if p = JName i j then JIdx i j else p)"


section \<open>Matrix operations of the algebra engine\<close>

text \<open>
  Sums, products and the cross product check the shapes of their arguments and raise a
  \<open>ShapeError\<close> on a mismatch. A slice assignment \<open>M[r0:r1,:] = V\<close> needs a value of
  the shape of the slice.
\<close>

definition col :: "expr list \<Rightarrow> expr matrix" where
  "col xs = \<lparr>nrows = length xs, ncols = 1, entry = (\<lambda>i j. xs ! i)\<rparr>"

definition eye :: "nat \<Rightarrow> expr matrix" where
  "eye n = \<lparr>nrows = n, ncols = n, entry = (\<lambda>i j. if i = j then Const 1 else Const 0)\<rparr>"

definition sum_e :: "expr list \<Rightarrow> expr" where
  "sum_e xs = foldl add (Const 0) xs"

definition mat_mul :: "expr matrix \<Rightarrow> expr matrix \<Rightarrow> error + expr matrix" where
  "mat_mul M N =
     (if ncols M \<noteq> nrows N then Inl ShapeError
      else Inr \<lparr>nrows = nrows M, ncols = ncols N,
                entry = (\<lambda>i j. sum_e (map (\<lambda>k. mul (entry M i k) (entry N k j)) [0..<ncols M]))\<rparr>)"

definition mat_add :: "expr matrix \<Rightarrow> expr matrix \<Rightarrow> error + expr matrix" where
  "mat_add M N =
     (if nrows M \<noteq> nrows N \<or> ncols M \<noteq> ncols N then Inl ShapeError
      else Inr \<lparr>nrows = nrows M, ncols = ncols M,
                entry = (\<lambda>i j. add (entry M i j) (entry N i j))\<rparr>)"

definition mat_sub :: "expr matrix \<Rightarrow> expr matrix \<Rightarrow> error + expr matrix" where
  "mat_sub M N =
     (if nrows M \<noteq> nrows N \<or> ncols M \<noteq> ncols N then Inl ShapeError
      else Inr \<lparr>nrows = nrows M, ncols = ncols M,
                entry = (\<lambda>i j. sub (entry M i j) (entry N i j))\<rparr>)"

definition scalar_mul :: "expr \<Rightarrow> expr matrix \<Rightarrow> expr matrix" where
  "scalar_mul c M = M\<lparr>entry := (\<lambda>i j. mul c (entry M i j))\<rparr>"

definition transpose_m :: "expr matrix \<Rightarrow> expr matrix" where
  "transpose_m M = \<lparr>nrows = ncols M, ncols = nrows M, entry = (\<lambda>i j. entry M j i)\<rparr>"

definition flat :: "expr matrix \<Rightarrow> nat \<Rightarrow> expr" where
  "flat M k = entry M (k div ncols M) (k mod ncols M)"

definition cross :: "expr matrix \<Rightarrow> expr matrix \<Rightarrow> error + expr matrix" where
  "cross a b =
     (if nrows a * ncols a \<noteq> 3 \<or> nrows b * ncols b \<noteq> 3 then Inl ShapeError
      else Inr \<lparr>nrows = nrows a, ncols = ncols a,
                entry = (\<lambda>i j.
                  [sub (mul (flat a 1) (flat b 2)) (mul (flat a 2) (flat b 1)),
                   sub (mul (flat a 2) (flat b 0)) (mul (flat a 0) (flat b 2)),
                   sub (mul (flat a 0) (flat b 1)) (mul (flat a 1) (flat b 0))]
                  ! (i * ncols a + j))\<rparr>)"

definition set_rows :: "expr matrix \<Rightarrow> nat \<Rightarrow> nat \<Rightarrow> expr matrix \<Rightarrow> error + expr matrix" where
  "set_rows M r0 r1 V =
     (if nrows V \<noteq> r1 - r0 \<or> ncols V \<noteq> ncols M then Inl ShapeError
      else Inr (M\<lparr>entry := (\<lambda>i j. if r0 \<le> i \<and> i < r1 then entry V (i - r0) j
                                      else entry M i j)\<rparr>))"

text \<open>
  \<open>Matrix.pinv\<close> and \<open>Matrix.pinv_solve\<close>, for the 3x3 matrices that reach them
  (\<open>J*w\<close> and the cross product have already fixed the shape of \<open>J\<close>). The
  pseudo-inverse of the zero matrix is its transpose; otherwise it is
  \<open>(M\<^sup>H M)\<^sup>-\<^sup>1 M\<^sup>H\<close>, and a matrix \<open>M\<^sup>H M\<close> whose determinant is the number zero
  makes \<open>pinv\<close> raise. Symbols stand for real numbers, so the conjugate is the identity.
  The inverse is given by the adjugate over the determinant. \<open>pinv_solve\<close> returns
  \<open>M\<^sup>+ B + (I - M\<^sup>+ M) w\<close> for a column \<open>w\<close> of fresh dummy symbols.
\<close>

definition is_zero_m :: "expr matrix \<Rightarrow> bool" where
  "is_zero_m M = list_all (\<lambda>i. list_all (\<lambda>j. entry M i j = Const 0) [0..<ncols M]) [0..<nrows M]"

definition minor2 :: "expr matrix \<Rightarrow> nat \<Rightarrow> nat \<Rightarrow> nat \<Rightarrow> nat \<Rightarrow> expr" where
  "minor2 M r0 r1 c0 c1 =
     sub (mul (entry M r0 c0) (entry M r1 c1)) (mul (entry M r0 c1) (entry M r1 c0))"

definition det3 :: "expr matrix \<Rightarrow> expr" where
  "det3 M =
     add (sub (mul (entry M 0 0) (minor2 M 1 2 1 2))
              (mul (entry M 0 1) (minor2 M 1 2 0 2)))
         (mul (entry M 0 2) (minor2 M 1 2 0 1))"

definition adjugate3 :: "expr matrix \<Rightarrow> nat \<Rightarrow> nat \<Rightarrow> expr" where
  "adjugate3 M i j =
     (let rs = filter (\<lambda>r. r \<noteq> j) [0, 1, 2]; cs = filter (\<lambda>c. c \<noteq> i) [0, 1, 2];
          mn = minor2 M (rs ! 0) (rs ! 1) (cs ! 0) (cs ! 1)
      in if even (i + j) then mn else neg mn)"

definition inverse_m :: "expr matrix \<Rightarrow> error + expr matrix" where
  "inverse_m M =
     (if nrows M \<noteq> 3 \<or> ncols M \<noteq> 3 then Inl NotImplementedError
      else if det3 M = Const 0 then Inl ValueError
      else Inr \<lparr>nrows = 3, ncols = 3,
                entry = (\<lambda>i j. mul (adjugate3 M i j) (pow (det3 M) (- 1)))\<rparr>)"

definition pinv :: "expr matrix \<Rightarrow> error + expr matrix" where
  "pinv M =
     (if is_zero_m M then Inr (transpose_m M)
      else bindE (mat_mul (transpose_m M) M) (\<lambda>N.
           case inverse_m N of
             Inl e \<Rightarrow> Inl NotImplementedError
           | Inr Ninv \<Rightarrow> mat_mul Ninv (transpose_m M)))"

definition arbitrary_matrix :: "expr matrix" where
  "arbitrary_matrix = col [Sym ''_w0_0'', Sym ''_w1_0'', Sym ''_w2_0'']"

definition pinv_solve :: "expr matrix \<Rightarrow> expr matrix \<Rightarrow> error + expr matrix" where
  "pinv_solve M Bm =
     bindE (pinv M) (\<lambda>A_pinv.
     bindE (mat_mul A_pinv Bm) (\<lambda>sol.
     bindE (mat_mul A_pinv M) (\<lambda>PM.
     bindE (mat_sub (eye (ncols M)) PM) (\<lambda>K.
     bindE (mat_mul K arbitrary_matrix) (\<lambda>free.
     mat_add sol free)))))"

section \<open>Differentiation\<close>

text \<open>The derivative of an expression with respect to a symbol, by the usual rules.\<close>

fun diff :: "string \<Rightarrow> expr \<Rightarrow> expr" where
  "diff x (Const c) = Const 0"
| "diff x (Sym y) = (if x = y then Const 1 else Const 0)"
| "diff x (Add a b) = add (diff x a) (diff x b)"
| "diff x (Mul a b) = add (mul (diff x a) b) (mul a (diff x b))"
| "diff x (Pow a k) = mul (mul (Const (of_int k)) (pow a (k - 1))) (diff x a)"
| "diff x (Sqrt a) = mul (diff x a) (mul (Const (1 / 2)) (pow (Sqrt a) (- 1)))"

definition jacobian :: "expr matrix \<Rightarrow> string list \<Rightarrow> expr matrix" where
  "jacobian M X =
     \<lparr>nrows = nrows M, ncols = length X, entry = (\<lambda>i j. diff (X ! j) (entry M i 0))\<rparr>"

text \<open>
  Where an expression is differentiable: the base of a negative power is not zero and
  the argument of a square root is positive.
\<close>

fun smooth :: "(string \<Rightarrow> real) \<Rightarrow> expr \<Rightarrow> bool" where
  "smooth env (Const c) = True"
| "smooth env (Sym n) = True"
| "smooth env (Add a b) = (smooth env a \<and> smooth env b)"
| "smooth env (Mul a b) = (smooth env a \<and> smooth env b)"
| "smooth env (Pow a k) = (smooth env a \<and> (0 \<le> k \<or> evalT env a \<noteq> 0))"
| "smooth env (Sqrt a) = (smooth env a \<and> 0 < evalT env a)"

section \<open>The class \<open>Dynamics\<close>\<close>

text \<open>
  A value of the constants mapping: a number, a one-dimensional array or a
  two-dimensional array.
\<close>

datatype cval = Scalar real | Vector "real list" | Array2 "real list list"

fun Matrix_of :: "cval \<Rightarrow> error + expr matrix" where
  "Matrix_of (Scalar r) = Inl TypeError"
| "Matrix_of (Vector v) =
     Inr \<lparr>nrows = length v, ncols = 1, entry = (\<lambda>i j. Const (v ! i))\<rparr>"
| "Matrix_of (Array2 rows) =
     (if \<exists>r \<in> set rows. length r \<noteq> length (hd rows) then Inl ValueError
      else Inr \<lparr>nrows = length rows, ncols = (if rows = [] then 0 else length (hd rows)),
                entry = (\<lambda>i j. Const (rows ! i ! j))\<rparr>)"

definition lookup :: "(string \<rightharpoonup> 'v) \<Rightarrow> string \<Rightarrow> error + 'v" where
  "lookup d k = (case d k of None \<Rightarrow> Inl (KeyError k) | Some v \<Rightarrow> Inr v)"

record dynamics =
  self_x :: "string list list"
  self_u :: "string list"
  self_s :: string
  self_f :: "expr matrix"
  self_A :: "expr matrix"
  self_B :: "expr matrix"

definition state_symbols :: "string list list" where
  "state_symbols =
     [[''m''],
      [''r0''], [''r1''], [''r2''],
      [''v0''], [''v1''], [''v2''],
      [''q0''], [''q1''], [''q2''], [''q3''],
      [''w0''], [''w1''], [''w2'']]"

definition control_symbols :: "string list" where
  "control_symbols = [''u0'', ''u1'', ''u2'']"

text \<open>
  The right-hand side \<open>f\<close> (lines 62 to 76 of the source) for given constants, and
  the Jacobians (lines 78 and 79).
\<close>

definition assemble_f :: "expr \<Rightarrow> expr matrix \<Rightarrow> expr matrix \<Rightarrow> expr matrix \<Rightarrow> error + expr matrix" where
  "assemble_f alpha rTB J g =
     (let m = Sym ''m'';
          v = col [Sym ''v0'', Sym ''v1'', Sym ''v2''];
          q = [Sym ''q0'', Sym ''q1'', Sym ''q2'', Sym ''q3''];
          w = [Sym ''w0'', Sym ''w1'', Sym ''w2''];
          u = col (map Sym control_symbols);
          f = zeros 14 1;
          u_mag = Sqrt (add (add (pow (flat u 0) 2) (pow (flat u 1) 2)) (pow (flat u 2) 2));
          f = set_at f 0 0 (mul (neg alpha) u_mag)
      in bindE (set_rows f 1 4 v) (\<lambda>f.
         bindE (cIB q) (\<lambda>R.
         bindE (mat_mul (scalar_mul (divide_e (Const 1) m) R) u) (\<lambda>thrust.
         bindE (mat_add thrust g) (\<lambda>dv.
         bindE (set_rows f 4 7 dv) (\<lambda>f.
         bindE (Om w) (\<lambda>Omega.
         bindE (mat_mul (scalar_mul (Const (1 / 2)) Omega) (col q)) (\<lambda>dq.
         bindE (set_rows f 7 11 dq) (\<lambda>f.
         bindE (cross rTB u) (\<lambda>torque.
         bindE (mat_mul J (col w)) (\<lambda>Jw.
         bindE (cross (col w) Jw) (\<lambda>gyro.
         bindE (mat_sub torque gyro) (\<lambda>rhs.
         bindE (pinv_solve J rhs) (\<lambda>dw.
         set_rows f 11 14 dw))))))))))))))"

definition derive :: "expr \<Rightarrow> expr matrix \<Rightarrow> expr matrix \<Rightarrow> expr matrix \<Rightarrow> error + dynamics" where
  "derive alpha rTB J g =
     bindE (assemble_f alpha rTB J g) (\<lambda>f.
       Inr \<lparr>self_x = state_symbols, self_u = control_symbols, self_s = ''s'',
            self_f = f,
            self_A = scalar_mul (Sym ''s'') (jacobian f (map hd state_symbols)),
            self_B = scalar_mul (Sym ''s'') (jacobian f control_symbols)\<rparr>)"

definition generate_functions :: "(expr \<Rightarrow> string) \<Rightarrow> dynamics \<Rightarrow> string" where
  "generate_functions str self =
     write_functions str [(''A'', self_A self), (''B'', self_B self), (''f'', self_f self)]"

text \<open>
  \<open>Dynamics.__init__\<close>. With a constants mapping the constants are read under the keys
  \<open>alpha\<close>, \<open>rTB\<close>, \<open>J\<close>, \<open>g\<close> and no file is written; without one they are symbols,
  \<open>J\<close> is the diagonal matrix of \<open>J00\<close>, \<open>J11\<close>, \<open>J22\<close>, and the file
  \<open>dynamics_functions.py\<close> is written (the second component of the result).
\<close>

definition Dynamics_init ::
  "(expr \<Rightarrow> string) \<Rightarrow> (string \<rightharpoonup> cval) option \<Rightarrow> error + dynamics \<times> string option" where
  "Dynamics_init str constants =
     (case constants of
        Some c \<Rightarrow>
          bindE (lookup c ''alpha'') (\<lambda>a.
          bindE (case a of Scalar r \<Rightarrow> Inr (Const r) | _ \<Rightarrow> Inl TypeError) (\<lambda>alpha.
          bindE (lookup c ''rTB'') (\<lambda>rv. bindE (Matrix_of rv) (\<lambda>rTB.
          bindE (lookup c ''J'') (\<lambda>jv. bindE (Matrix_of jv) (\<lambda>J.
          bindE (lookup c ''g'') (\<lambda>gv. bindE (Matrix_of gv) (\<lambda>g.
          bindE (derive alpha rTB J g) (\<lambda>self. Inr (self, None))))))))))
      | None \<Rightarrow>
          (let alpha = Sym ''alpha'';
               rTB = col [Sym ''rTB0'', Sym ''rTB1'', Sym ''rTB2''];
               g = col [Sym ''gx'', Sym ''gy'', Sym ''gz''];
               J = zeros 3 3;
               J = set_at J 0 0 (Sym ''J00'');
               J = set_at J 1 1 (Sym ''J11'');
               J = set_at J 2 2 (Sym ''J22'')
           in bindE (derive alpha rTB J g) (\<lambda>self.
                Inr (self, Some (generate_functions str self)))))"

section \<open>Evaluation: \<open>Dynamics.get\<close>\<close>


fun mapE :: "('a \<Rightarrow> error + 'b) \<Rightarrow> 'a list \<Rightarrow> error + 'b list" where
  "mapE h [] = Inr []"
| "mapE h (a # as) = bindE (h a) (\<lambda>b. bindE (mapE h as) (\<lambda>bs. Inr (b # bs)))"







text \<open>The magnitude of the control, \<open>sqrt(u0**2. + u1**2. + u2**2.)\<close>.\<close>

definition u_mag :: expr where
  "u_mag = Sqrt (add (add (pow (Sym ''u0'') 2) (pow (Sym ''u1'') 2)) (pow (Sym ''u2'') 2))"

section \<open>Example inputs\<close>


definition main_constants :: "string \<rightharpoonup> cval" where
  "main_constants =
     [''alpha'' \<mapsto> Scalar (1 / 10),
      ''rTB'' \<mapsto> Vector [- 1 / 100, 0, 0],
      ''J'' \<mapsto> Array2 [[1 / 100, 0, 0], [0, 1 / 100, 0], [0, 0, 1 / 100]],
      ''g_I'' \<mapsto> Vector [- 1, 0, 0]]"


section \<open>The generated module at run time\<close>

text \<open>
  \<open>set_parameters\<close> of the generated class stores every item of the mapping as an
  attribute of the object. Each generated evaluator starts by unpacking \<open>x\<close> into
  14 names and \<open>u\<close> into 3 names, and then reads the constants from the attributes
  named in \<open>constants_unpacking\<close>; \<open>constant_reads\<close> lists these statements as
  pairs of targets and attribute. Reading an attribute that was never stored raises an
  \<open>AttributeError\<close>; unpacking into several targets needs a value with that many
  items. The arithmetic of the statements that follow is not modelled.
\<close>

definition set_parameters :: "(string \<rightharpoonup> cval) \<Rightarrow> (string \<rightharpoonup> cval) \<Rightarrow> (string \<rightharpoonup> cval)" where
  "set_parameters attrs parms = attrs ++ parms"

definition constant_reads :: "(string list \<times> string) list" where
  "constant_reads =
     [([''J''], ''J''),
      ([''alpha''], ''alpha''),
      ([''gx'', ''gy'', ''gz''], ''g_I''),
      ([''rTB0'', ''rTB1'', ''rTB2''], ''rTB'')]"

fun join :: "string \<Rightarrow> string list \<Rightarrow> string" where
  "join sep [] = []"
| "join sep [a] = a"
| "join sep (a # b # rest) = a @ sep @ join sep (b # rest)"

fun unpack :: "string list \<Rightarrow> cval \<Rightarrow> error + (string \<times> cval) list" where
  "unpack [t] v = Inr [(t, v)]"
| "unpack ts (Scalar r) = Inl TypeError"
| "unpack ts (Vector xs) =
     (if length xs = length ts then Inr (zip ts (map Scalar xs)) else Inl ValueError)"
| "unpack ts (Array2 rows) =
     (if length rows = length ts then Inr (zip ts (map Vector rows)) else Inl ValueError)"

definition read_constants :: "(string \<rightharpoonup> cval) \<Rightarrow> error + (string \<times> cval) list list" where
  "read_constants attrs =
     mapE (\<lambda>(ts, attr). case attrs attr of
                            None \<Rightarrow> Inl (AttributeError attr)
                          | Some v \<Rightarrow> unpack ts v) constant_reads"

definition generated_prelude ::
  "(string \<rightharpoonup> cval) \<Rightarrow> real list list \<Rightarrow> real list \<Rightarrow> error + (string \<times> cval) list" where
  "generated_prelude attrs x u =
     bindE (unpack (map hd state_symbols) (Array2 x)) (\<lambda>xv.
     bindE (unpack control_symbols (Vector u)) (\<lambda>uv.
     bindE (read_constants attrs) (\<lambda>cs. Inr (xv @ uv @ concat cs))))"

section \<open>Semantics of the expression operators\<close>

lemma evalT_add [simp]: "evalT env (add a b) = evalT env a + evalT env b"
  by (cases a; cases b) (simp_all add: add_def)

lemma evalT_mul [simp]: "evalT env (mul a b) = evalT env a * evalT env b"
  by (cases a; cases b) (simp_all add: mul_def)

lemma evalT_pow [simp]: "evalT env (pow a k) = evalT env a powi k"
  by (cases a) (simp_all add: pow_def)

lemma evalT_neg [simp]: "evalT env (neg a) = - evalT env a"
  by (simp add: neg_def)

lemma evalT_sub [simp]: "evalT env (sub a b) = evalT env a - evalT env b"
  by (simp add: sub_def)

lemma sum_lessThan_3: "(\<Sum>k<(3::nat). f k) = f 0 + f 1 + f 2"
  by (simp add: eval_nat_numeral)

lemma all_less_3: "(\<forall>i<(3::nat). P i) = (P 0 \<and> P 1 \<and> P 2)"
proof -
  have "\<And>i::nat. i < 3 \<longleftrightarrow> i = 0 \<or> i = 1 \<or> i = 2" by arith
  then show ?thesis by auto
qed

lemma cIB_entries:
  assumes R: "cIB [q0, q1, q2, q3] = Inr R"
  shows "entry R 0 0 = sub (Const 1) (mul (Const 2) (add (pow q2 2) (pow q3 2)))"
    and "entry R 0 1 = mul (Const 2) (add (mul q1 q2) (mul q0 q3))"
    and "entry R 0 2 = mul (Const 2) (sub (mul q1 q3) (mul q0 q2))"
    and "entry R 1 0 = mul (Const 2) (sub (mul q1 q2) (mul q0 q3))"
    and "entry R 1 1 = sub (Const 1) (mul (Const 2) (add (pow q1 2) (pow q3 2)))"
    and "entry R 1 2 = mul (Const 2) (add (mul q2 q3) (mul q0 q1))"
    and "entry R 2 0 = mul (Const 2) (add (mul q1 q3) (mul q0 q2))"
    and "entry R 2 1 = mul (Const 2) (sub (mul q2 q3) (mul q0 q1))"
    and "entry R 2 2 = sub (Const 1) (mul (Const 2) (add (pow q1 2) (pow q2 2)))"
    and "nrows R = 3" and "ncols R = 3"
  using R by (auto simp: Let_def set_at_def zeros_def)

lemma cIB_unit_orthogonal:
  assumes n: "(evalT env q0)\<^sup>2 + (evalT env q1)\<^sup>2 + (evalT env q2)\<^sup>2 + (evalT env q3)\<^sup>2 = 1"
  assumes R: "cIB [q0, q1, q2, q3] = Inr R"
  shows "\<forall>i<3. \<forall>j<3. times_transpose (eval_matrix env R) i j = (if i = j then 1 else 0)"
proof -
  note E = cIB_entries [OF R] cIB_entries [OF R, unfolded One_nat_def]
  note S = times_transpose_def eval_matrix_def sum_lessThan_3
  have d0: "times_transpose (eval_matrix env R) 0 0 = 1"
    using n by (simp add: S E) algebra
  have d1: "times_transpose (eval_matrix env R) 1 1 = 1"
    using n by (simp add: S E) algebra
  have d2: "times_transpose (eval_matrix env R) 2 2 = 1"
    using n by (simp add: S E) algebra
  have o01: "times_transpose (eval_matrix env R) 0 1 = 0"
    using n by (simp add: S E) algebra
  have o02: "times_transpose (eval_matrix env R) 0 2 = 0"
    using n by (simp add: S E) algebra
  have o12: "times_transpose (eval_matrix env R) 1 2 = 0"
    using n by (simp add: S E) algebra
  have sym: "\<And>i j. times_transpose (eval_matrix env R) i j = times_transpose (eval_matrix env R) j i"
    by (simp add: times_transpose_def mult.commute)
  show ?thesis
    unfolding all_less_3 using d0 d1 d2 o01 o02 o12 sym [of 1 0] sym [of 2 0] sym [of 2 1] by simp
qed


text \<open>
  Claim C8. For every quaternion \<open>q = (q0, q1, q2, q3)\<close> of unit norm, the matrix
  \<open>cIB q\<close> times its transpose is the 3x3 identity; for \<open>q = (1, 0, 0, 0)\<close> the
  matrix is exactly the identity; and \<open>cIB\<close> does not normalise its argument: at
  \<open>q = (0, 2, 0, 0)\<close> the entry \<open>[1,1]\<close> is \<open>1 - 2 * 4 = -7\<close>, not the
  \<open>-1\<close> of the normalised quaternion \<open>(0, 1, 0, 0)\<close>.
\<close>

theorem cIB_orthogonal_for_unit_quaternion:
  "((evalT env q0)\<^sup>2 + (evalT env q1)\<^sup>2 + (evalT env q2)\<^sup>2 + (evalT env q3)\<^sup>2 = 1 \<longrightarrow>
      (\<exists>R. cIB [q0, q1, q2, q3] = Inr R \<and> nrows R = 3 \<and> ncols R = 3 \<and>
         (\<forall>i<3. \<forall>j<3. times_transpose (eval_matrix env R) i j = (if i = j then 1 else 0))))
   \<and> (\<exists>R. cIB [Const 1, Const 0, Const 0, Const 0] = Inr R \<and>
         (\<forall>i<3. \<forall>j<3. entry R i j = (if i = j then Const 1 else Const 0)))
   \<and> (\<exists>R. cIB [Const 0, Const 2, Const 0, Const 0] = Inr R \<and> entry R 1 1 = Const (- 7))"
proof (intro conjI impI)
  assume n: "(evalT env q0)\<^sup>2 + (evalT env q1)\<^sup>2 + (evalT env q2)\<^sup>2 + (evalT env q3)\<^sup>2 = 1"
  obtain R where R: "cIB [q0, q1, q2, q3] = Inr R"
    by simp
  from cIB_unit_orthogonal [OF n R] cIB_entries(10,11) [OF R] R
  show "\<exists>R. cIB [q0, q1, q2, q3] = Inr R \<and> nrows R = 3 \<and> ncols R = 3 \<and>
         (\<forall>i<3. \<forall>j<3. times_transpose (eval_matrix env R) i j = (if i = j then 1 else 0))"
    by blast
next
  obtain R where R: "cIB [Const 1, Const 0, Const 0, Const 0] = Inr R"
    by simp
  note E = cIB_entries [OF R] cIB_entries [OF R, unfolded One_nat_def]
  have "\<forall>i<3. \<forall>j<3. entry R i j = (if i = j then Const 1 else Const 0)"
    unfolding all_less_3 by (simp add: E add_def mul_def sub_def neg_def pow_def)
  with R show "\<exists>R. cIB [Const 1, Const 0, Const 0, Const 0] = Inr R \<and>
         (\<forall>i<3. \<forall>j<3. entry R i j = (if i = j then Const 1 else Const 0))"
    by blast
next
  obtain R where R: "cIB [Const 0, Const 2, Const 0, Const 0] = Inr R"
    by simp
  have "entry R 1 1 = Const (- 7)"
    by (simp add: cIB_entries(5) [OF R, unfolded One_nat_def] add_def mul_def sub_def neg_def pow_def)
  with R show "\<exists>R. cIB [Const 0, Const 2, Const 0, Const 0] = Inr R \<and> entry R 1 1 = Const (- 7)"
    by blast
qed

theorem cIB_orthogonal_witness:
  "\<exists>R. cIB [Const (3 / 5), Const (4 / 5), Const 0, Const 0] = Inr R \<and>
       times_transpose (eval_matrix (\<lambda>_. 0) R) 0 0 = 1 \<and>
       times_transpose (eval_matrix (\<lambda>_. 0) R) 0 1 = 0"
proof -
  have n: "(evalT (\<lambda>_. 0) (Const (3 / 5)))\<^sup>2 + (evalT (\<lambda>_. 0) (Const (4 / 5)))\<^sup>2
      + (evalT (\<lambda>_. 0) (Const 0))\<^sup>2 + (evalT (\<lambda>_. 0) (Const 0))\<^sup>2 = 1"
    by (simp add: power2_eq_square)
  from cIB_orthogonal_for_unit_quaternion
    [of "\<lambda>_. 0" "Const (3 / 5)" "Const (4 / 5)" "Const 0" "Const 0"] n
  obtain R where R: "cIB [Const (3 / 5), Const (4 / 5), Const 0, Const 0] = Inr R"
    and o: "\<forall>i<3. \<forall>j<3. times_transpose (eval_matrix (\<lambda>_. 0) R) i j = (if i = j then 1 else 0)"
    by blast
  from o have "times_transpose (eval_matrix (\<lambda>_. 0) R) 0 0 = 1"
    and "times_transpose (eval_matrix (\<lambda>_. 0) R) 0 1 = 0"
    by simp_all
  with R show ?thesis by blast
qed

section \<open>The rewrite of the inertia names\<close>

lemma digit_char_in: "d < 10 \<Longrightarrow> digit_char d \<in> set ''0123456789''"
  unfolding digit_char_def by (rule nth_mem) simp

lemma str_nat_digits: "set (str_nat n) \<subseteq> set ''0123456789''"
proof (induction n rule: str_nat.induct)
  case (1 n)
  show ?case
  proof (cases "n < 10")
    case True
    then show ?thesis using digit_char_in [of n] by (subst str_nat.simps) simp
  next
    case False
    have "n mod 10 < 10" by simp
    then have "digit_char (n mod 10) \<in> set ''0123456789''" by (rule digit_char_in)
    with False 1 show ?thesis by (subst str_nat.simps) simp
  qed
qed

lemma str_nat_no_J: "CHR ''J'' \<notin> set (str_nat n)"
  using str_nat_digits [of n] by auto

lemma digit_char_vals:
  "digit_char 0 = CHR ''0''" "digit_char (Suc 0) = CHR ''1''" "digit_char 1 = CHR ''1''"
  "digit_char 2 = CHR ''2''"
  by (simp_all add: digit_char_def)

lemma str_nat_small:
  "str_nat 0 = ''0''" "str_nat (Suc 0) = ''1''" "str_nat 1 = ''1''" "str_nat 2 = ''2''"
  by (simp_all add: str_nat.simps digit_char_vals)

lemma less_3_cases: "i < (3::nat) \<Longrightarrow> i = 0 \<or> i = 1 \<or> i = 2"
  by arith

lemma replace_scan_skip:
  "CHR ''J'' \<notin> set s \<Longrightarrow>
     replace_scan (CHR ''J'' # old) new (s @ t) = s @ replace_scan (CHR ''J'' # old) new t"
  by (induction s) auto

lemma replace_scan_name:
  assumes "a \<noteq> CHR ''J''" "b \<noteq> CHR ''J''"  "a' \<noteq> CHR ''J''" "b' \<noteq> CHR ''J''"
  shows "replace_scan [CHR ''J'', a, b] new (CHR ''J'' # a' # b' # t) =
      (if a = a' \<and> b = b' then new @ replace_scan [CHR ''J'', a, b] new t
       else CHR ''J'' # a' # b' # replace_scan [CHR ''J'', a, b] new t)"
  using assms by auto


lemma J_name_small:
  "i < 3 \<Longrightarrow> j < 3 \<Longrightarrow> J_name i j = [CHR ''J'', digit_char i, digit_char j]"
  by (auto dest!: less_3_cases simp: J_name_def str_nat_small digit_char_vals)

lemma J_index_small:
  "i < 3 \<Longrightarrow> j < 3 \<Longrightarrow>
     J_index i j = CHR ''J'' # [CHR ''['', digit_char i, CHR '','', digit_char j, CHR '']'']"
  by (auto dest!: less_3_cases simp: J_index_def str_nat_small digit_char_vals)

lemma digit_char_small:
  "i < 3 \<Longrightarrow> digit_char i \<noteq> CHR ''J'' \<and> digit_char i \<noteq> CHR ''[''"
  by (auto dest!: less_3_cases simp: digit_char_vals)

lemma digit_char_inj_small:
  assumes "i < 3" "i' < 3"
  shows "digit_char i = digit_char i' \<longleftrightarrow> i = i'"
proof -
  from less_3_cases [OF assms(1)] less_3_cases [OF assms(2)] show ?thesis
    by (elim disjE) (simp_all add: digit_char_vals)
qed

lemma replace_scan_piece:
  assumes ij: "i < 3" "j < 3" and p: "wf_piece p"
  shows "replace_scan (J_name i j) (J_index i j) (render p @ t) =
           render (pass i j p) @ replace_scan (J_name i j) (J_index i j) t"
proof (cases p)
  case (Txt s)
  with p ij show ?thesis
    by (simp add: J_name_small replace_scan_skip pass_def)
next
  case (JName i' j')
  with p have b: "i' < 3" "j' < 3" by simp_all
  show ?thesis
    using ij b digit_char_small [of i] digit_char_small [of j]
      digit_char_small [of i'] digit_char_small [of j']
      digit_char_inj_small [of i i'] digit_char_inj_small [of j j']
    unfolding JName
    by (simp add: J_name_small J_index_small pass_def replace_scan_name del: replace_scan.simps)
next
  case (JIdx i' j')
  with p have b: "i' < 3" "j' < 3" by simp_all
  have nj: "CHR ''J'' \<notin> set [CHR ''['', digit_char i', CHR '','', digit_char j', CHR '']'']"
    using digit_char_small [of i'] digit_char_small [of j'] b by auto
  have "replace_scan (J_name i j) (J_index i j)
          (CHR ''J'' # [CHR ''['', digit_char i', CHR '','', digit_char j', CHR '']''] @ t)
        = CHR ''J'' # replace_scan (J_name i j) (J_index i j)
          ([CHR ''['', digit_char i', CHR '','', digit_char j', CHR '']''] @ t)"
    using ij digit_char_small [of i] by (simp add: J_name_small)
  also have "\<dots> = CHR ''J'' # [CHR ''['', digit_char i', CHR '','', digit_char j', CHR '']'']
                 @ replace_scan (J_name i j) (J_index i j) t"
    using replace_scan_skip [OF nj] ij by (simp add: J_name_small del: replace_scan.simps)
  finally show ?thesis
    using b unfolding JIdx by (simp add: J_index_small pass_def del: replace_scan.simps)
qed

lemma replace_scan_pieces:
  assumes ij: "i < 3" "j < 3"
  shows "\<forall>p\<in>set ps. wf_piece p \<Longrightarrow>
     replace_scan (J_name i j) (J_index i j) (concat (map render ps)) =
       concat (map (render \<circ> pass i j) ps)"
proof (induction ps)
  case Nil
  then show ?case by simp
next
  case (Cons p ps)
  then show ?case
    using replace_scan_piece [OF ij, of p "concat (map render ps)"]
    by (simp del: replace_scan.simps)
qed

lemma wf_pass: "wf_piece p \<Longrightarrow> wf_piece (pass i j p)"
  by (cases p) (auto simp: pass_def)

lemma py_replace_pieces:
  assumes ij: "i < 3" "j < 3" and wf: "\<forall>p\<in>set ps. wf_piece p"
  shows "py_replace (concat (map render ps)) (J_name i j) (J_index i j) =
       concat (map render (map (pass i j) ps))"
  using replace_scan_pieces [OF ij wf] ij by (simp add: py_replace_def J_name_small)

lemma all_passes:
  "wf_piece p \<Longrightarrow>
     pass 2 2 (pass 2 1 (pass 2 0 (pass 1 2 (pass 1 1 (pass 1 0
       (pass 0 2 (pass 0 1 (pass 0 0 p)))))))) = index_J p"
  by (cases p) (auto simp: pass_def dest!: less_3_cases)

lemma upt_0_3: "[0..<3] = [0, 1, 2]"
  by (simp add: upt_rec)

lemma rewrite_J_pieces:
  assumes wf: "\<forall>p\<in>set ps. wf_piece p"
  shows "rewrite_J (concat (map render ps)) = concat (map (render \<circ> index_J) ps)"
proof -
  have step: "\<And>i j qs. i < 3 \<Longrightarrow> j < 3 \<Longrightarrow> \<forall>p\<in>set qs. wf_piece p \<Longrightarrow>
      py_replace (concat (map render qs)) (J_name i j) (J_index i j)
        = concat (map render (map (pass i j) qs))
      \<and> (\<forall>p\<in>set (map (pass i j) qs). wf_piece p)"
    using py_replace_pieces wf_pass by auto
  define p0 where "p0 = map (pass 0 0) ps"
  define p1 where "p1 = map (pass 0 1) p0"
  define p2 where "p2 = map (pass 0 2) p1"
  define p3 where "p3 = map (pass 1 0) p2"
  define p4 where "p4 = map (pass 1 1) p3"
  define p5 where "p5 = map (pass 1 2) p4"
  define p6 where "p6 = map (pass 2 0) p5"
  define p7 where "p7 = map (pass 2 1) p6"
  define p8 where "p8 = map (pass 2 2) p7"
  note d = p0_def p1_def p2_def p3_def p4_def p5_def p6_def p7_def p8_def
  have s0: "py_replace (concat (map render ps)) (J_name 0 0) (J_index 0 0) = concat (map render p0)"
    and w0: "\<forall>p\<in>set p0. wf_piece p" using step [of 0 0 ps] wf by (simp_all add: d)
  have s1: "py_replace (concat (map render p0)) (J_name 0 1) (J_index 0 1) = concat (map render p1)"
    and w1: "\<forall>p\<in>set p1. wf_piece p" using step [of 0 1 p0] w0 by (simp_all add: d)
  have s2: "py_replace (concat (map render p1)) (J_name 0 2) (J_index 0 2) = concat (map render p2)"
    and w2: "\<forall>p\<in>set p2. wf_piece p" using step [of 0 2 p1] w1 by (simp_all add: d)
  have s3: "py_replace (concat (map render p2)) (J_name 1 0) (J_index 1 0) = concat (map render p3)"
    and w3: "\<forall>p\<in>set p3. wf_piece p" using step [of 1 0 p2] w2 by (simp_all add: d)
  have s4: "py_replace (concat (map render p3)) (J_name 1 1) (J_index 1 1) = concat (map render p4)"
    and w4: "\<forall>p\<in>set p4. wf_piece p" using step [of 1 1 p3] w3 by (simp_all add: d)
  have s5: "py_replace (concat (map render p4)) (J_name 1 2) (J_index 1 2) = concat (map render p5)"
    and w5: "\<forall>p\<in>set p5. wf_piece p" using step [of 1 2 p4] w4 by (simp_all add: d)
  have s6: "py_replace (concat (map render p5)) (J_name 2 0) (J_index 2 0) = concat (map render p6)"
    and w6: "\<forall>p\<in>set p6. wf_piece p" using step [of 2 0 p5] w5 by (simp_all add: d)
  have s7: "py_replace (concat (map render p6)) (J_name 2 1) (J_index 2 1) = concat (map render p7)"
    and w7: "\<forall>p\<in>set p7. wf_piece p" using step [of 2 1 p6] w6 by (simp_all add: d)
  have s8: "py_replace (concat (map render p7)) (J_name 2 2) (J_index 2 2) = concat (map render p8)"
    using step [of 2 2 p7] w7 by (simp_all add: d)
  have "rewrite_J (concat (map render ps)) = concat (map render p8)"
    unfolding rewrite_J_def upt_0_3 by (simp only: foldl.simps s0 s1 s2 s3 s4 s5 s6 s7 s8)
  also have "p8 = map index_J ps"
    unfolding d using wf by (simp add: all_passes [unfolded One_nat_def])
  finally show ?thesis by simp
qed


text \<open>
  Claim C5. In an emitted assignment line, every inertia name \<open>Jij\<close> with
  \<open>i, j\<close> in \<open>{0, 1, 2}\<close> is replaced by the indexed access \<open>J[i,j]\<close> of the
  same two digits, and the rest of the line, the target included, is unchanged.
\<close>

theorem genline_rewrites_inertia_names:
  assumes name: "CHR ''J'' \<notin> set name"
    and wf: "\<forall>p\<in>set ps. wf_piece p"
  shows "genline name n m (concat (map render ps)) =
           tab @ name @ ''m'' @
           (if name \<noteq> ''f'' then ''['' @ str_nat n @ '', '' @ str_nat m @ '']=''
            else ''['' @ str_nat n @ '']='')
           @ concat (map (render \<circ> index_J) ps)"
proof -
  define pre where "pre = tab @ name @ ''m'' @
           (if name \<noteq> ''f'' then ''['' @ str_nat n @ '', '' @ str_nat m @ '']=''
            else ''['' @ str_nat n @ '']='')"
  have "CHR ''J'' \<notin> set pre"
    using name str_nat_no_J by (simp add: pre_def tab_def)
  then have wf': "\<forall>p\<in>set (Txt pre # ps). wf_piece p"
    using wf by simp
  have "genline name n m (concat (map render ps)) = rewrite_J (concat (map render (Txt pre # ps)))"
    by (simp add: genline_def pre_def)
  also have "\<dots> = concat (map (render \<circ> index_J) (Txt pre # ps))"
    by (rule rewrite_J_pieces [OF wf'])
  finally show ?thesis
    by (simp add: pre_def)
qed

theorem genline_rewrites_inertia_names_witness:
  "genline ''A'' 11 12 ''-J00*w1/J22 + J11'' = ''    Am[11, 12]=-J[0,0]*w1/J[2,2] + J[1,1]''"
  using genline_rewrites_inertia_names
    [of "''A''" "[Txt ''-'', JName 0 0, Txt ''*w1/'', JName 2 2, Txt '' + '', JName 1 1]" 11 12]
  by (simp add: J_name_def J_index_def str_nat.simps digit_char_def tab_def)

section \<open>Sparsity of the generated assignments\<close>














section \<open>Determinism and order of the generated text\<close>









section \<open>Differentiation is exact\<close>

lemma upd_same: "(\<lambda>a. if a = x then env x else env a) = env"
  by auto

lemma diff_correct:
  assumes "smooth env e"
  shows "((\<lambda>t. evalT (env(x := t)) e) has_real_derivative evalT env (diff x e)) (at (env x))"
  using assms
proof (induction e)
  case (Const c)
  show ?case by simp
next
  case (Sym y)
  show ?case by (cases "x = y") simp_all
next
  case (Add a b)
  then show ?case by (auto intro!: derivative_eq_intros)
next
  case (Mul a b)
  then show ?case by (auto intro!: derivative_eq_intros simp: upd_same mult_ac)
next
  case (Pow a k)
  from Pow.prems have sa: "smooth env a" and nz: "0 \<le> k \<or> evalT env a \<noteq> 0"
    by simp_all
  note d = Pow.IH [OF sa]
  have nz': "0 \<le> k \<or> evalT (env(x := env x)) a \<noteq> 0"
    using nz by simp
  from DERIV_power_int [OF d nz'] show ?case
    by (simp add: mult_ac)
next
  case (Sqrt a)
  from Sqrt.prems have sa: "smooth env a" and pos: "0 < evalT env a"
    by simp_all
  note d = Sqrt.IH [OF sa]
  have pos': "0 < evalT (env(x := env x)) a"
    using pos by simp
  from DERIV_chain' [OF d DERIV_real_sqrt [OF pos']] show ?case
    by (simp add: power_int_minus field_simps)
qed

lemma set_rows_shape:
  "set_rows M r0 r1 V = Inr M' \<Longrightarrow> nrows M' = nrows M \<and> ncols M' = ncols M"
  by (auto simp: set_rows_def split: if_splits)

lemma bindE_Inr: "bindE r k = Inr v \<Longrightarrow> \<exists>a. r = Inr a \<and> k a = Inr v"
  by (cases r) (simp_all add: bindE_def)

lemma assemble_f_shape:
  assumes "assemble_f alpha rTB J g = Inr f"
  shows "nrows f = 14 \<and> ncols f = 1"
proof -
  from assms obtain f1 f2 f3 V1 V2 V3 r1 r2 r3 where
    s: "set_rows (set_at (zeros 14 1) 0 0 V1) 1 4 r1 = Inr f1"
      "set_rows f1 4 7 r2 = Inr f2" "set_rows f2 7 11 r3 = Inr f3"
      "set_rows f3 11 14 V3 = Inr f"
    unfolding assemble_f_def Let_def
    by (auto dest!: bindE_Inr)
  from s show ?thesis
    by (auto dest!: set_rows_shape simp: set_at_def zeros_def)
qed

section \<open>The assembled right-hand side and its Jacobians\<close>

lemma assemble_f_cases:
  assumes "assemble_f alpha rTB J g = Inr f"
  obtains R thrust dv Omega dq torque Jw gyro rhs dw where
    "cIB [Sym ''q0'', Sym ''q1'', Sym ''q2'', Sym ''q3''] = Inr R"
    "mat_mul (scalar_mul (divide_e (Const 1) (Sym ''m'')) R) (col (map Sym control_symbols)) = Inr thrust"
    "mat_add thrust g = Inr dv"
    "Om [Sym ''w0'', Sym ''w1'', Sym ''w2''] = Inr Omega"
    "mat_mul (scalar_mul (Const (1 / 2)) Omega) (col [Sym ''q0'', Sym ''q1'', Sym ''q2'', Sym ''q3'']) = Inr dq"
    "cross rTB (col (map Sym control_symbols)) = Inr torque"
    "mat_mul J (col [Sym ''w0'', Sym ''w1'', Sym ''w2'']) = Inr Jw"
    "cross (col [Sym ''w0'', Sym ''w1'', Sym ''w2'']) Jw = Inr gyro"
    "mat_sub torque gyro = Inr rhs"
    "pinv_solve J rhs = Inr dw"
    "nrows f = 14" "ncols f = 1"
    "nrows dv = 3" "ncols dv = 1" "nrows dq = 4" "ncols dq = 1" "nrows dw = 3" "ncols dw = 1"
    "\<And>i j. entry f i j =
       (if 11 \<le> i \<and> i < 14 then entry dw (i - 11) j
        else if 7 \<le> i \<and> i < 11 then entry dq (i - 7) j
        else if 4 \<le> i \<and> i < 7 then entry dv (i - 4) j
        else if 1 \<le> i \<and> i < 4 then [Sym ''v0'', Sym ''v1'', Sym ''v2''] ! (i - 1)
        else if i = 0 \<and> j = 0 then mul (neg alpha) u_mag
        else Const 0)"
  using assms unfolding assemble_f_def Let_def
  apply (clarsimp dest!: bindE_Inr)
  apply (auto dest!: bindE_Inr simp: set_rows_def set_at_def zeros_def col_def flat_def u_mag_def control_symbols_def split: if_splits)
  done


lemma pinv_shape:
  assumes "pinv J = Inr P" "nrows J = 3" "ncols J = 3"
  shows "nrows P = 3 \<and> ncols P = 3"
  using assms
  by (auto simp: pinv_def transpose_m_def mat_mul_def inverse_m_def
      dest!: bindE_Inr split: if_splits sum.splits)

lemma pinv_solve_ok:
  assumes "pinv J = Inr P" "nrows J = 3" "ncols J = 3" "nrows b = 3" "ncols b = 1"
  shows "\<exists>dw. pinv_solve J b = Inr dw \<and> nrows dw = 3 \<and> ncols dw = 1"
  using assms pinv_shape [OF assms(1-3)]
  by (simp add: pinv_solve_def bindE_def mat_mul_def mat_sub_def mat_add_def eye_def
      arbitrary_matrix_def col_def)

lemma shapes [simp]:
  "nrows (col xs) = length xs" "ncols (col xs) = 1"
  "nrows (zeros r c) = r" "ncols (zeros r c) = c"
  "nrows (set_at M i j v) = nrows M" "ncols (set_at M i j v) = ncols M"
  "nrows (scalar_mul k M) = nrows M" "ncols (scalar_mul k M) = ncols M"
  "nrows (transpose_m M) = ncols M" "ncols (transpose_m M) = nrows M"
  "nrows (eye n) = n" "ncols (eye n) = n"
  by (simp_all add: col_def zeros_def set_at_def scalar_mul_def transpose_m_def eye_def)

lemma Om_ok: "\<exists>Omega. Om [a, b, c] = Inr Omega \<and> nrows Omega = 4 \<and> ncols Omega = 4"
  by (simp add: Let_def)

lemma cIB_ok: "\<exists>R. cIB [a, b, c, d] = Inr R \<and> nrows R = 3 \<and> ncols R = 3"
  by (simp add: Let_def)

lemma mat_mul_ok:
  "ncols M = nrows N \<Longrightarrow>
     \<exists>P. mat_mul M N = Inr P \<and> nrows P = nrows M \<and> ncols P = ncols N"
  by (simp add: mat_mul_def)

lemma mat_add_ok:
  "nrows M = nrows N \<Longrightarrow> ncols M = ncols N \<Longrightarrow>
     \<exists>P. mat_add M N = Inr P \<and> nrows P = nrows M \<and> ncols P = ncols M"
  by (simp add: mat_add_def)

lemma mat_sub_ok:
  "nrows M = nrows N \<Longrightarrow> ncols M = ncols N \<Longrightarrow>
     \<exists>P. mat_sub M N = Inr P \<and> nrows P = nrows M \<and> ncols P = ncols M"
  by (simp add: mat_sub_def)

lemma cross_ok:
  "nrows a * ncols a = 3 \<Longrightarrow> nrows b * ncols b = 3 \<Longrightarrow>
     \<exists>c. cross a b = Inr c \<and> nrows c = nrows a \<and> ncols c = ncols a"
  by (simp add: cross_def)

lemma set_rows_ok:
  "nrows V = r1 - r0 \<Longrightarrow> ncols V = ncols M \<Longrightarrow>
     \<exists>M'. set_rows M r0 r1 V = Inr M' \<and> nrows M' = nrows M \<and> ncols M' = ncols M"
  by (simp add: set_rows_def)

lemma assemble_f_ok:
  assumes "nrows rTB = 3" "ncols rTB = 1" "nrows J = 3" "ncols J = 3"
    "nrows g = 3" "ncols g = 1" "pinv J = Inr P"
  shows "\<exists>f. assemble_f alpha rTB J g = Inr f"
proof -
  let ?u = "col (map Sym control_symbols)"
  let ?w = "col [Sym ''w0'', Sym ''w1'', Sym ''w2'']"
  let ?q = "col [Sym ''q0'', Sym ''q1'', Sym ''q2'', Sym ''q3'']"
  let ?f0 = "set_at (zeros 14 1) 0 0
      (mul (neg alpha) (Sqrt (add (add (pow (flat ?u 0) 2) (pow (flat ?u 1) 2)) (pow (flat ?u 2) 2))))"
  have lu: "nrows ?u = 3" by (simp add: control_symbols_def)
  obtain f1 where f1: "set_rows ?f0 1 4 (col [Sym ''v0'', Sym ''v1'', Sym ''v2'']) = Inr f1"
    "nrows f1 = 14" "ncols f1 = 1"
    using set_rows_ok [of "col [Sym ''v0'', Sym ''v1'', Sym ''v2'']" 4 1 ?f0] by auto
  obtain R where R: "cIB [Sym ''q0'', Sym ''q1'', Sym ''q2'', Sym ''q3''] = Inr R"
    "nrows R = 3" "ncols R = 3" using cIB_ok by blast
  obtain thrust where th: "mat_mul (scalar_mul (divide_e (Const 1) (Sym ''m'')) R) ?u = Inr thrust"
    "nrows thrust = 3" "ncols thrust = 1"
    using mat_mul_ok [of "scalar_mul (divide_e (Const 1) (Sym ''m'')) R" ?u] R lu by auto
  obtain dv where dv: "mat_add thrust g = Inr dv" "nrows dv = 3" "ncols dv = 1"
    using mat_add_ok [of thrust g] th assms by auto
  obtain f2 where f2: "set_rows f1 4 7 dv = Inr f2" "nrows f2 = 14" "ncols f2 = 1"
    using set_rows_ok [of dv 7 4 f1] dv f1 by auto
  obtain Omega where Om: "Om [Sym ''w0'', Sym ''w1'', Sym ''w2''] = Inr Omega"
    "nrows Omega = 4" "ncols Omega = 4" using Om_ok by blast
  obtain dq where dq: "mat_mul (scalar_mul (Const (1 / 2)) Omega) ?q = Inr dq"
    "nrows dq = 4" "ncols dq = 1"
    using mat_mul_ok [of "scalar_mul (Const (1 / 2)) Omega" ?q] Om by auto
  obtain f3 where f3: "set_rows f2 7 11 dq = Inr f3" "nrows f3 = 14" "ncols f3 = 1"
    using set_rows_ok [of dq 11 7 f2] dq f2 by auto
  obtain torque where t: "cross rTB ?u = Inr torque" "nrows torque = 3" "ncols torque = 1"
    using cross_ok [of rTB ?u] assms lu by auto
  obtain Jw where jw: "mat_mul J ?w = Inr Jw" "nrows Jw = 3" "ncols Jw = 1"
    using mat_mul_ok [of J ?w] assms by auto
  obtain gyro where gy: "cross ?w Jw = Inr gyro" "nrows gyro = 3" "ncols gyro = 1"
    using cross_ok [of ?w Jw] jw by auto
  obtain rhs where r: "mat_sub torque gyro = Inr rhs" "nrows rhs = 3" "ncols rhs = 1"
    using mat_sub_ok [of torque gyro] t gy by auto
  from pinv_solve_ok [OF assms(7,3,4) r(2,3)]
  obtain dw where dw: "pinv_solve J rhs = Inr dw" "nrows dw = 3" "ncols dw = 1" by blast
  obtain f4 where f4: "set_rows f3 11 14 dw = Inr f4"
    using set_rows_ok [of dw 14 11 f3] dw f3 by auto
  have "assemble_f alpha rTB J g = Inr f4"
    unfolding assemble_f_def Let_def
    by (simp only: f1 R th dv f2 Om dq f3 t jw gy r dw f4 bindE_def sum.case)
  then show ?thesis by blast
qed

lemma derive_cases:
  assumes "derive alpha rTB J g = Inr d"
  obtains f0 where "assemble_f alpha rTB J g = Inr f0"
    "self_f d = f0" "self_x d = state_symbols" "self_u d = control_symbols" "self_s d = ''s''"
    "self_A d = scalar_mul (Sym ''s'') (jacobian f0 (map hd state_symbols))"
    "self_B d = scalar_mul (Sym ''s'') (jacobian f0 control_symbols)"
  using assms unfolding derive_def by (auto dest!: bindE_Inr)

lemma Dynamics_init_cases:
  assumes "Dynamics_init str constants = Inr (d, file)"
  obtains alpha rTB J g where "derive alpha rTB J g = Inr d"
  using assms unfolding Dynamics_init_def Let_def
  by (auto dest!: bindE_Inr split: option.splits)

lemma upt_0_3': "[0..<3] = [0, Suc 0, 2]"
  by (simp add: upt_rec)

lemma pinv_ok:
  assumes "nrows J = 3" "ncols J = 3" "\<not> is_zero_m J"
    "mat_mul (transpose_m J) J = Inr N" "det3 N \<noteq> Const 0"
  shows "\<exists>P. pinv J = Inr P"
proof -
  from assms(1,2,4) have "nrows N = 3" "ncols N = 3"
    by (auto simp: mat_mul_def split: if_splits)
  with assms(5) obtain Ninv where n: "inverse_m N = Inr Ninv" "nrows Ninv = 3" "ncols Ninv = 3"
    by (simp add: inverse_m_def)
  with assms(1,2) obtain P where "mat_mul Ninv (transpose_m J) = Inr P"
    using mat_mul_ok [of Ninv "transpose_m J"] by auto
  with assms(3,4) n(1) show ?thesis
    by (simp add: pinv_def bindE_def)
qed

lemma symbolic_pinv:
  "\<exists>P. pinv (set_at (set_at (set_at (zeros 3 3) 0 0 (Sym ''J00'')) 1 1 (Sym ''J11''))
              2 2 (Sym ''J22'')) = Inr P"
proof -
  let ?J = "set_at (set_at (set_at (zeros 3 3) 0 0 (Sym ''J00'')) 1 1 (Sym ''J11''))
              2 2 (Sym ''J22'')"
  obtain N where N: "mat_mul (transpose_m ?J) ?J = Inr N"
    and eN: "\<And>i j. entry N i j
       = sum_e (map (\<lambda>k. mul (entry (transpose_m ?J) i k) (entry ?J k j)) [0..<3])"
    by (simp add: mat_mul_def)
  have nz: "\<not> is_zero_m ?J"
    by (simp add: is_zero_m_def upt_0_3' set_at_def zeros_def)
  have dN: "det3 N \<noteq> Const 0"
    by (simp add: det3_def minor2_def eN sum_e_def upt_0_3' transpose_m_def set_at_def
        zeros_def add_def mul_def sub_def neg_def)
  show ?thesis
    by (rule pinv_ok [OF _ _ nz N dN]) simp_all
qed

lemma symbolic_init:
  "\<exists>d. Dynamics_init str None = Inr (d, Some (generate_functions str d))
       \<and> entry (self_f d) 0 0 = mul (neg (Sym ''alpha'')) u_mag
       \<and> self_x d = state_symbols \<and> self_u d = control_symbols \<and> self_s d = ''s''"
proof -
  let ?J = "set_at (set_at (set_at (zeros 3 3) 0 0 (Sym ''J00'')) 1 1 (Sym ''J11''))
              2 2 (Sym ''J22'')"
  let ?rTB = "col [Sym ''rTB0'', Sym ''rTB1'', Sym ''rTB2'']"
  let ?g = "col [Sym ''gx'', Sym ''gy'', Sym ''gz'']"
  obtain P where P: "pinv ?J = Inr P" using symbolic_pinv by blast
  have "\<exists>f. assemble_f (Sym ''alpha'') ?rTB ?J ?g = Inr f"
    by (rule assemble_f_ok [OF _ _ _ _ _ _ P]) simp_all
  then obtain f0 where f0: "assemble_f (Sym ''alpha'') ?rTB ?J ?g = Inr f0" by blast
  define d where "d = \<lparr>self_x = state_symbols, self_u = control_symbols, self_s = ''s'',
            self_f = f0,
            self_A = scalar_mul (Sym ''s'') (jacobian f0 (map hd state_symbols)),
            self_B = scalar_mul (Sym ''s'') (jacobian f0 control_symbols)\<rparr>"
  have "derive (Sym ''alpha'') ?rTB ?J ?g = Inr d"
    unfolding derive_def by (simp only: f0 bindE_def sum.case d_def)
  then have i: "Dynamics_init str None = Inr (d, Some (generate_functions str d))"
    unfolding Dynamics_init_def Let_def by (simp only: bindE_def sum.case option.case)
  from f0 have "entry f0 0 0 = mul (neg (Sym ''alpha'')) u_mag"
    by (rule assemble_f_cases) simp
  with i show ?thesis by (auto simp: d_def)
qed

text \<open>
  Claim C3. \<open>A\<close> is 14x14 and \<open>B\<close> is 14x3; wherever the entry \<open>f[i]\<close> is
  differentiable, \<open>A[i,j]\<close> is \<open>s\<close> times the derivative of \<open>f[i]\<close> with respect to
  the \<open>j\<close>-th state symbol (in the order \<open>m, r0..r2, v0..v2, q0..q3, w0..w2\<close>) and
  \<open>B[i,j]\<close> is \<open>s\<close> times its derivative with respect to \<open>uj\<close>: the derivative of
  analysis, not a difference quotient.
\<close>

theorem jacobians_are_exact_derivatives:
  assumes init: "Dynamics_init str constants = Inr (d, file)"
  shows "nrows (self_A d) = 14 \<and> ncols (self_A d) = 14
     \<and> nrows (self_B d) = 14 \<and> ncols (self_B d) = 3
     \<and> map hd (self_x d) =
         [''m'', ''r0'', ''r1'', ''r2'', ''v0'', ''v1'', ''v2'',
          ''q0'', ''q1'', ''q2'', ''q3'', ''w0'', ''w1'', ''w2'']
     \<and> self_u d = [''u0'', ''u1'', ''u2'']
     \<and> (\<forall>i<14. \<forall>j<14. smooth env (entry (self_f d) i 0) \<longrightarrow>
          (\<exists>D. ((\<lambda>t. evalT (env(map hd (self_x d) ! j := t)) (entry (self_f d) i 0))
                  has_real_derivative D) (at (env (map hd (self_x d) ! j)))
               \<and> evalT env (entry (self_A d) i j) = env (self_s d) * D))
     \<and> (\<forall>i<14. \<forall>j<3. smooth env (entry (self_f d) i 0) \<longrightarrow>
          (\<exists>D. ((\<lambda>t. evalT (env(self_u d ! j := t)) (entry (self_f d) i 0))
                  has_real_derivative D) (at (env (self_u d ! j)))
               \<and> evalT env (entry (self_B d) i j) = env (self_s d) * D))"
proof -
  from init obtain alpha rTB J g where "derive alpha rTB J g = Inr d"
    by (rule Dynamics_init_cases)
  then obtain f0 where f0: "assemble_f alpha rTB J g = Inr f0"
    and d: "self_f d = f0" "self_x d = state_symbols" "self_u d = control_symbols"
      "self_s d = ''s''"
      "self_A d = scalar_mul (Sym ''s'') (jacobian f0 (map hd state_symbols))"
      "self_B d = scalar_mul (Sym ''s'') (jacobian f0 control_symbols)"
    by (rule derive_cases)
  from assemble_f_shape [OF f0] have sh: "nrows f0 = 14" "ncols f0 = 1" by simp_all
  have A: "\<And>i j. entry (self_A d) i j
      = mul (Sym ''s'') (diff (map hd state_symbols ! j) (entry f0 i 0))"
    and B: "\<And>i j. entry (self_B d) i j
      = mul (Sym ''s'') (diff (control_symbols ! j) (entry f0 i 0))"
    by (simp_all add: d scalar_mul_def jacobian_def)
  have shapes: "nrows (self_A d) = 14 \<and> ncols (self_A d) = 14
     \<and> nrows (self_B d) = 14 \<and> ncols (self_B d) = 3"
    by (simp add: d sh jacobian_def state_symbols_def control_symbols_def)
  have names: "map hd (self_x d) =
         [''m'', ''r0'', ''r1'', ''r2'', ''v0'', ''v1'', ''v2'',
          ''q0'', ''q1'', ''q2'', ''q3'', ''w0'', ''w1'', ''w2'']
     \<and> self_u d = [''u0'', ''u1'', ''u2'']"
    by (simp add: d state_symbols_def control_symbols_def)
  have dA: "\<forall>i<14. \<forall>j<14. smooth env (entry (self_f d) i 0) \<longrightarrow>
          (\<exists>D. ((\<lambda>t. evalT (env(map hd (self_x d) ! j := t)) (entry (self_f d) i 0))
                  has_real_derivative D) (at (env (map hd (self_x d) ! j)))
               \<and> evalT env (entry (self_A d) i j) = env (self_s d) * D)"
    using diff_correct [of env] by (auto simp add: A d(1,2,4))
  have dB: "\<forall>i<14. \<forall>j<3. smooth env (entry (self_f d) i 0) \<longrightarrow>
          (\<exists>D. ((\<lambda>t. evalT (env(self_u d ! j := t)) (entry (self_f d) i 0))
                  has_real_derivative D) (at (env (self_u d ! j)))
               \<and> evalT env (entry (self_B d) i j) = env (self_s d) * D)"
    using diff_correct [of env] by (auto simp add: B d(1,3,4))
  from shapes names dA dB show ?thesis by blast
qed


theorem jacobians_are_exact_derivatives_witness:
  "\<exists>d file D. Dynamics_init (\<lambda>e. ''0'') None = Inr (d, file) \<and>
     ((\<lambda>t. evalT ((\<lambda>n. if n = ''u0'' then 3 else if n = ''u1'' then 4
                          else if n = ''u2'' then 0 else 2)(''u0'' := t))
            (entry (self_f d) 0 0)) has_real_derivative D) (at 3) \<and>
     evalT (\<lambda>n. if n = ''u0'' then 3 else if n = ''u1'' then 4
                          else if n = ''u2'' then 0 else 2) (entry (self_B d) 0 0) = 2 * D"
proof -
  let ?env = "\<lambda>n. if n = ''u0'' then 3 else if n = ''u1'' then 4
                          else if n = ''u2'' then 0 else (2::real)"
  obtain d where i: "Dynamics_init (\<lambda>e. ''0'') None = Inr (d, Some (generate_functions (\<lambda>e. ''0'') d))"
    and e: "entry (self_f d) 0 0 = mul (neg (Sym ''alpha'')) u_mag"
    and n: "self_u d = control_symbols" "self_s d = ''s''"
    using symbolic_init by blast
  have sm: "smooth ?env (entry (self_f d) 0 0)"
    by (simp add: e u_mag_def mul_def neg_def add_def pow_def)
  from jacobians_are_exact_derivatives [OF i, of ?env]
  have "\<forall>i<14. \<forall>j<3. smooth ?env (entry (self_f d) i 0) \<longrightarrow>
          (\<exists>D. ((\<lambda>t. evalT (?env(self_u d ! j := t)) (entry (self_f d) i 0))
                  has_real_derivative D) (at (?env (self_u d ! j)))
               \<and> evalT ?env (entry (self_B d) i j) = ?env (self_s d) * D)"
    by blast
  then have "smooth ?env (entry (self_f d) 0 0) \<longrightarrow>
          (\<exists>D. ((\<lambda>t. evalT (?env(self_u d ! 0 := t)) (entry (self_f d) 0 0))
                  has_real_derivative D) (at (?env (self_u d ! 0)))
               \<and> evalT ?env (entry (self_B d) 0 0) = ?env (self_s d) * D)"
    by simp
  with sm obtain D where
    "((\<lambda>t. evalT (?env(self_u d ! 0 := t)) (entry (self_f d) 0 0))
                  has_real_derivative D) (at (?env (self_u d ! 0)))"
    "evalT ?env (entry (self_B d) 0 0) = ?env (self_s d) * D"
    by blast
  then have "((\<lambda>t. evalT (?env(''u0'' := t)) (entry (self_f d) 0 0))
                  has_real_derivative D) (at 3)"
    "evalT ?env (entry (self_B d) 0 0) = 2 * D"
    by (simp_all add: n control_symbols_def)
  with i show ?thesis by blast
qed

section \<open>Results of the matrix operations\<close>








lemma evalT_sum_e: "evalT env (sum_e xs) = sum_list (map (evalT env) xs)"
proof -
  have "\<And>a. evalT env (foldl add a xs) = evalT env a + sum_list (map (evalT env) xs)"
    by (induction xs) (simp_all add: algebra_simps)
  then show ?thesis by (simp add: sum_e_def)
qed


section \<open>Evaluation at the zero control\<close>


lemma mapE_first_fails:
  "h a = Inl e \<Longrightarrow> mapE h (a # as) = Inl e"
  by (simp add: bindE_def)




section \<open>Computing with the expression operators\<close>

lemma set_at_entry [simp]:
  "entry (set_at M i j v) a b = (if a = i \<and> b = j then v else entry M a b)"
  by (simp add: set_at_def)

lemma zeros_entry [simp]: "entry (zeros r c) a b = Const 0"
  by (simp add: zeros_def)

lemma add_Const [simp]: "add (Const x) (Const y) = Const (x + y)"
  by (simp add: add_def)

lemma mul_Const [simp]: "mul (Const x) (Const y) = Const (x * y)"
  by (simp add: mul_def)








section \<open>The specification's concrete scenario\<close>



















end
